theory Spec2Isabelle
  imports Complex_Main "HOL-Library.Monad_Syntax" "HOL-Library.Sublist"
begin

section \<open>DegradationMix: mixing a noise into an audio buffer at a target SNR\<close>

text \<open>
  A shallow embedding of \<^verbatim>\<open>src/audio_degrader/DegradationMix.py\<close>.

  A NumPy array of shape \<open>(C, N)\<close> is the list of its \<open>C\<close> rows (channels), each a list
  of \<open>N\<close> samples; an array of shape \<open>(N,)\<close> is a list of samples. The buffer of the host
  is two-dimensional and a decoded audio file has at least one channel, so the number of
  samples of a two-dimensional array is the length of its first row.
\<close>

subsection \<open>Errors\<close>

text \<open>
  The exceptions that can leave \<^verbatim>\<open>apply\<close>: a missing key of
  \<^verbatim>\<open>parameters_values\<close>, a value that \<^verbatim>\<open>float\<close> or a NumPy broadcast refuses, the
  overflow of \<^verbatim>\<open>10 ** x\<close> on line 82, and whatever the decoder raises for a missing or
  undecodable file.
\<close>

datatype error = KeyError | ValueError | OverflowError | LoadError

subsection \<open>Sample values and floating-point arithmetic\<close>

text \<open>
  A floating-point value is a finite number, an infinity or a NaN. The special values
  follow IEEE 754 as NumPy applies it under its default error state, where a division by
  zero or an invalid operation warns, returns an infinity or a NaN and raises nothing.
  Zero is unsigned and divides like \<open>+0\<close>: every divisor of this program is a root mean
  square or a power of ten, never a negative zero.
\<close>

datatype npfloat = Fin real | PInf | NInf | NaN

fun is_finite :: "npfloat \<Rightarrow> bool" where
  "is_finite (Fin _) = True"
| "is_finite _ = False"

text \<open>
  The floating-point unit is a parameter. On finite operands an operation returns
  \<open>rounding\<close> of its exact real result: the floating-point number the hardware delivers
  for it, an infinity when it overflows, zero when it underflows. \<open>pow_rounding\<close> is the
  same for the \<^verbatim>\<open>pow\<close> of the C library, which need not return the nearest number.
  Nothing is assumed of either function but what a theorem states.
\<close>

record float_unit =
  rounding :: "real \<Rightarrow> npfloat"
  pow_rounding :: "real \<Rightarrow> npfloat"

fun fadd :: "float_unit \<Rightarrow> npfloat \<Rightarrow> npfloat \<Rightarrow> npfloat" where
  "fadd u (Fin a) (Fin b) = rounding u (a + b)"
| "fadd u NaN _ = NaN"
| "fadd u _ NaN = NaN"
| "fadd u PInf NInf = NaN"
| "fadd u NInf PInf = NaN"
| "fadd u PInf _ = PInf"
| "fadd u _ PInf = PInf"
| "fadd u NInf _ = NInf"
| "fadd u _ NInf = NInf"

fun fmul :: "float_unit \<Rightarrow> npfloat \<Rightarrow> npfloat \<Rightarrow> npfloat" where
  "fmul u (Fin a) (Fin b) = rounding u (a * b)"
| "fmul u NaN _ = NaN"
| "fmul u _ NaN = NaN"
| "fmul u (Fin a) PInf = (if a = 0 then NaN else if 0 < a then PInf else NInf)"
| "fmul u (Fin a) NInf = (if a = 0 then NaN else if 0 < a then NInf else PInf)"
| "fmul u PInf (Fin b) = (if b = 0 then NaN else if 0 < b then PInf else NInf)"
| "fmul u NInf (Fin b) = (if b = 0 then NaN else if 0 < b then NInf else PInf)"
| "fmul u PInf PInf = PInf"
| "fmul u PInf NInf = NInf"
| "fmul u NInf PInf = NInf"
| "fmul u NInf NInf = PInf"

fun fdiv :: "float_unit \<Rightarrow> npfloat \<Rightarrow> npfloat \<Rightarrow> npfloat" where
  "fdiv u (Fin a) (Fin b) =
     (if b = 0 then (if a = 0 then NaN else if 0 < a then PInf else NInf)
      else rounding u (a / b))"
| "fdiv u NaN _ = NaN"
| "fdiv u _ NaN = NaN"
| "fdiv u (Fin a) PInf = Fin 0"
| "fdiv u (Fin a) NInf = Fin 0"
| "fdiv u PInf (Fin b) = (if 0 \<le> b then PInf else NInf)"
| "fdiv u NInf (Fin b) = (if 0 \<le> b then NInf else PInf)"
| "fdiv u PInf PInf = NaN"
| "fdiv u PInf NInf = NaN"
| "fdiv u NInf PInf = NaN"
| "fdiv u NInf NInf = NaN"

text \<open>\<^verbatim>\<open>np.sqrt(x)\<close>.\<close>

fun fsqrt :: "float_unit \<Rightarrow> npfloat \<Rightarrow> npfloat" where
  "fsqrt u (Fin a) = (if a < 0 then NaN else rounding u (sqrt a))"
| "fsqrt u PInf = PInf"
| "fsqrt u NInf = NaN"
| "fsqrt u NaN = NaN"

text \<open>\<^verbatim>\<open>np.power(x, 2)\<close> on one element.\<close>

fun fsquare :: "float_unit \<Rightarrow> npfloat \<Rightarrow> npfloat" where
  "fsquare u (Fin a) = rounding u (a * a)"
| "fsquare u PInf = PInf"
| "fsquare u NInf = PInf"
| "fsquare u NaN = NaN"

text \<open>
  \<^verbatim>\<open>10 ** x\<close> on a Python float: \<^verbatim>\<open>pow\<close> of the C library, and OverflowError when
  the result of a finite exponent is out of range. An underflow is zero and raises nothing.
\<close>

fun pow10 :: "float_unit \<Rightarrow> npfloat \<Rightarrow> error + npfloat" where
  "pow10 u (Fin x) =
     (case pow_rounding u (10 powr x) of PInf \<Rightarrow> Inl OverflowError | v \<Rightarrow> Inr v)"
| "pow10 u PInf = Inr PInf"
| "pow10 u NInf = Inr (Fin 0)"
| "pow10 u NaN = Inr NaN"

subsection \<open>Shapes\<close>

text \<open>\<^verbatim>\<open>a.shape[1]\<close> of a two-dimensional array.\<close>

definition nsamples :: "'a list list \<Rightarrow> nat" where
  "nsamples a = (case a of [] \<Rightarrow> 0 | c # _ \<Rightarrow> length c)"

text \<open>\<^verbatim>\<open>a.shape == (c, n)\<close>.\<close>

definition has_shape :: "nat \<Rightarrow> nat \<Rightarrow> 'a list list \<Rightarrow> bool" where
  "has_shape c n a \<longleftrightarrow> length a = c \<and> list_all (\<lambda>r. length r = n) a"

subsection \<open>The host object\<close>

text \<open>The \<^verbatim>\<open>DegradedAudioFile\<close> that \<^verbatim>\<open>apply\<close> receives and writes to.\<close>

record audio_file =
  samples :: "npfloat list list"
  sample_rate :: nat

subsection \<open>Collaborators\<close>

text \<open>What \<^verbatim>\<open>lr.core.load(path, sr, mono=False)\<close> returns: shape \<open>(N,)\<close> or \<open>(C, N)\<close>.\<close>

datatype decoded = OneDim "npfloat list" | TwoDim "npfloat list list"

text \<open>
  The world outside the module: the directory of the installed package
  (\<^verbatim>\<open>audio_degrader.__path__[0]\<close>), \<^verbatim>\<open>os.path.isfile\<close>, the decoder, the builtin
  \<^verbatim>\<open>float\<close> on a string (\<open>None\<close> when it raises ValueError) and the floating-point
  unit.
\<close>

record env =
  package_path :: string
  isfile :: "string \<Rightarrow> bool"
  load :: "string \<Rightarrow> nat \<Rightarrow> error + decoded"
  py_float :: "string \<Rightarrow> npfloat option"
  fpu :: float_unit

text \<open>The degradation object: its parameter values, strings keyed by name.\<close>

record degradation_mix =
  parameters_values :: "string \<rightharpoonup> string"

subsection \<open>read\_noise\<close>

text \<open>\<^verbatim>\<open>np.zeros((c, n))\<close>.\<close>

definition np_zeros :: "nat \<Rightarrow> nat \<Rightarrow> npfloat list list" where
  "np_zeros c n = replicate c (replicate n (Fin 0))"

definition read_noise :: "env \<Rightarrow> string \<Rightarrow> audio_file \<Rightarrow> error + npfloat list list" where
  "read_noise e noise_path degraded_audio_file =
     (case load e noise_path (sample_rate degraded_audio_file) of
        Inl err \<Rightarrow> Inl err
      | Inr (OneDim aux_x_noise) \<Rightarrow>
          (let noise_samples = np_zeros 2 (length aux_x_noise);
               noise_samples = noise_samples[0 := aux_x_noise];
               noise_samples = noise_samples[1 := aux_x_noise]
           in Inr noise_samples)
      | Inr (TwoDim aux_x_noise) \<Rightarrow> Inr aux_x_noise)"

subsection \<open>adjust\_noise\_duration\<close>

text \<open>\<^verbatim>\<open>np.concatenate((noise_samples, noise_samples), axis=1)\<close>.\<close>

definition concatenate_axis1 :: "'a list list \<Rightarrow> 'a list list \<Rightarrow> 'a list list" where
  "concatenate_axis1 a b = map2 (@) a b"

text \<open>
  The loop of lines 51 to 53. It may run forever, so it is a partial function: \<open>None\<close>
  is the loop that never exits.
\<close>

partial_function (option) repeat_noise :: "'a list list \<Rightarrow> nat \<Rightarrow> 'a list list option" where
  "repeat_noise noise_samples input_num_samples =
     (if nsamples noise_samples < input_num_samples
      then repeat_noise (concatenate_axis1 noise_samples noise_samples) input_num_samples
      else Some noise_samples)"

text \<open>\<^verbatim>\<open>noise_samples[:, :input_num_samples]\<close>.\<close>

definition slice_axis1 :: "nat \<Rightarrow> 'a list list \<Rightarrow> 'a list list" where
  "slice_axis1 n a = map (take n) a"

definition adjust_noise_duration ::
  "npfloat list list \<Rightarrow> audio_file \<Rightarrow> npfloat list list option" where
  "adjust_noise_duration noise_samples degraded_audio_file =
     (let input_num_samples = nsamples (samples degraded_audio_file)
      in do {
        noise_samples' \<leftarrow> repeat_noise noise_samples input_num_samples;
        Some (slice_axis1 input_num_samples noise_samples')
      })"

subsection \<open>get\_actual\_noise\_path\<close>

text \<open>\<^verbatim>\<open>os.path.join(a, b)\<close> of \<^verbatim>\<open>posixpath\<close>, for two components.\<close>

definition os_path_join :: "string \<Rightarrow> string \<Rightarrow> string" where
  "os_path_join a b =
     (if (case b of [] \<Rightarrow> False | c # _ \<Rightarrow> c = CHR ''/'') then b
      else if a = [] \<or> last a = CHR ''/'' then a @ b
      else a @ ''/'' @ b)"

definition get_actual_noise_path :: "env \<Rightarrow> degradation_mix \<Rightarrow> error + string" where
  "get_actual_noise_path e self =
     (let resources_dir = os_path_join (package_path e) ''resources''
      in case parameters_values self ''noise'' of
           None \<Rightarrow> Inl KeyError
         | Some noise_path \<Rightarrow>
             Inr (if \<not> isfile e noise_path then os_path_join resources_dir noise_path
                  else noise_path))"

subsection \<open>get\_noise\_gain\_factor\<close>

text \<open>
  Lines 82 and 84, in the order of the source: the power first, which may raise, then
  the two divisions from left to right. The \<^verbatim>\<open>logging.debug\<close> calls around them format
  the values and change nothing.
\<close>

definition get_noise_gain_factor ::
  "float_unit \<Rightarrow> npfloat \<Rightarrow> npfloat \<Rightarrow> npfloat \<Rightarrow> error + npfloat" where
  "get_noise_gain_factor u snr_dbs rms_noise rms_input =
     (case pow10 u (fdiv u snr_dbs (Fin 20)) of
        Inl err \<Rightarrow> Inl err
      | Inr snr_linear \<Rightarrow>
          (let noise_gain_factor = fdiv u (fdiv u rms_input rms_noise) snr_linear
           in Inr noise_gain_factor))"

subsection \<open>apply\<close>

text \<open>
  \<^verbatim>\<open>np.mean(a)\<close>: the sum of all elements over their number; NaN for no element. The
  additions are made from left to right. NumPy adds a long array in blocks, which changes
  only how the sum is rounded.
\<close>

definition np_mean :: "float_unit \<Rightarrow> npfloat list list \<Rightarrow> npfloat" where
  "np_mean u a = fdiv u (foldl (fadd u) (Fin 0) (concat a)) (Fin (real (length (concat a))))"

text \<open>\<^verbatim>\<open>np.sqrt(np.mean(np.power(a, 2)))\<close>, on lines 93, 94 and 101.\<close>

definition rms :: "float_unit \<Rightarrow> npfloat list list \<Rightarrow> npfloat" where
  "rms u a = fsqrt u (np_mean u (map (map (fsquare u)) a))"

text \<open>
  \<^verbatim>\<open>a + b\<close> for two arrays with the same number of samples per channel: NumPy
  broadcasts a single channel over the channels of the other array and raises ValueError
  for any other difference in the number of channels.
\<close>

definition np_add ::
  "float_unit \<Rightarrow> npfloat list list \<Rightarrow> npfloat list list \<Rightarrow> error + npfloat list list" where
  "np_add u a b =
     (if length a = length b then Inr (map2 (map2 (fadd u)) a b)
      else if length b = 1 then Inr (map (\<lambda>r. map2 (fadd u) r (hd b)) a)
      else if length a = 1 then Inr (map (\<lambda>r. map2 (fadd u) (hd a) r) b)
      else Inl ValueError)"

text \<open>Line 99: \<^verbatim>\<open>samples + noise_samples * noise_gain_factor\<close>.\<close>

definition mix_signals ::
  "float_unit \<Rightarrow> npfloat list list \<Rightarrow> npfloat list list \<Rightarrow> npfloat
     \<Rightarrow> error + npfloat list list" where
  "mix_signals u input_samples noise_samples noise_gain_factor =
     np_add u input_samples (map (map (\<lambda>v. fmul u v noise_gain_factor)) noise_samples)"

text \<open>Line 102: \<^verbatim>\<open>y * rms_input / rms_y\<close>.\<close>

definition normalize_rms ::
  "float_unit \<Rightarrow> npfloat list list \<Rightarrow> npfloat \<Rightarrow> npfloat \<Rightarrow> npfloat list list" where
  "normalize_rms u y rms_input rms_y = map (map (\<lambda>v. fdiv u (fmul u v rms_input) rms_y)) y"

text \<open>
  The result is \<open>None\<close> when the call never returns. Otherwise it is the exception
  raised or the normal return, together with the host object as the call leaves it.
\<close>

definition apply_mix ::
  "env \<Rightarrow> degradation_mix \<Rightarrow> audio_file \<Rightarrow> ((error + unit) \<times> audio_file) option" where
  "apply_mix e self degraded_audio_file =
     (case get_actual_noise_path e self of
        Inl err \<Rightarrow> Some (Inl err, degraded_audio_file)
      | Inr noise_path \<Rightarrow>
     (case read_noise e noise_path degraded_audio_file of
        Inl err \<Rightarrow> Some (Inl err, degraded_audio_file)
      | Inr decoded_noise \<Rightarrow>
     (case adjust_noise_duration decoded_noise degraded_audio_file of
        None \<Rightarrow> None
      | Some noise_samples \<Rightarrow>
     (let rms_noise = rms (fpu e) noise_samples;
          rms_input = rms (fpu e) (samples degraded_audio_file)
      in case parameters_values self ''snr'' of
        None \<Rightarrow> Some (Inl KeyError, degraded_audio_file)
      | Some snr_string \<Rightarrow>
     (case py_float e snr_string of
        None \<Rightarrow> Some (Inl ValueError, degraded_audio_file)
      | Some snr_dbs \<Rightarrow>
     (case get_noise_gain_factor (fpu e) snr_dbs rms_noise rms_input of
        Inl err \<Rightarrow> Some (Inl err, degraded_audio_file)
      | Inr noise_gain_factor \<Rightarrow>
     (case mix_signals (fpu e) (samples degraded_audio_file) noise_samples
             noise_gain_factor of
        Inl err \<Rightarrow> Some (Inl err, degraded_audio_file)
      | Inr y \<Rightarrow>
     (let rms_y = rms (fpu e) y;
          y = normalize_rms (fpu e) y rms_input rms_y
      in Some (Inr (), degraded_audio_file\<lparr>samples := y\<rparr>)))))))))"

subsection \<open>Iterations of the loop, two floating-point units, and a small world to run the module in\<close>

text \<open>The noise after \<open>k\<close> runs of the loop body.\<close>

definition doubled :: "nat \<Rightarrow> 'a list list \<Rightarrow> 'a list list" where
  "doubled k a = ((\<lambda>b. concatenate_axis1 b b) ^^ k) a"


text \<open>
  A rounding that keeps zero and the order of the exact results, as rounding to the
  nearest floating-point number does. Whether the \<^verbatim>\<open>pow\<close> of a C library keeps the
  order is a property of that library.
\<close>

definition monotone_rounding :: "(real \<Rightarrow> npfloat) \<Rightarrow> bool" where
  "monotone_rounding r \<longleftrightarrow>
     r 0 = Fin 0 \<and> (\<forall>a b x y. a \<le> b \<and> r a = Fin x \<and> r b = Fin y \<longrightarrow> x \<le> y)"


text \<open>
  The range of binary64 without its rounding: a result at or beyond \<open>2^1024 - 2^970\<close>
  overflows, a result of magnitude at most \<open>2^-1075\<close> is zero, and any other real is
  kept as it is. On a run whose exact results are all binary64 numbers or out of this
  range, it computes what IEEE 754 double precision computes.
\<close>

definition range_only :: "real \<Rightarrow> npfloat" where
  "range_only x =
     (if 2 ^ 1024 - 2 ^ 970 \<le> x then PInf
      else if x \<le> - (2 ^ 1024 - 2 ^ 970) then NInf
      else if \<bar>x\<bar> \<le> 1 / 2 ^ 1075 then Fin 0
      else Fin x)"

definition range_unit :: float_unit where
  "range_unit = \<lparr>rounding = range_only, pow_rounding = range_only\<rparr>"

text \<open>
  An environment with one audio file, \<^verbatim>\<open>/tmp/noise.wav\<close>, that decodes to a given
  signal, a degradation configured on that file with a given SNR string, and a host
  object at 44100 Hz.
\<close>

definition example_env :: "decoded \<Rightarrow> env" where
  "example_env d =
     \<lparr>package_path = ''/site-packages/audio_degrader'',
      isfile = (\<lambda>p. p = ''/tmp/noise.wav''),
      load = (\<lambda>p sr. if p = ''/tmp/noise.wav'' then Inr d else Inl LoadError),
      py_float = (\<lambda>s. if s = ''0'' then Some (Fin 0)
                       else if s = ''8000'' then Some (Fin 8000) else None),
      fpu = range_unit\<rparr>"

definition example_mix :: "string \<Rightarrow> degradation_mix" where
  "example_mix snr =
     \<lparr>parameters_values = [''noise'' \<mapsto> ''/tmp/noise.wav'', ''snr'' \<mapsto> snr]\<rparr>"

definition example_file :: "npfloat list list \<Rightarrow> audio_file" where
  "example_file x = \<lparr>samples = x, sample_rate = 44100\<rparr>"

section \<open>Properties\<close>

subsection \<open>The duration loop\<close>

lemma repeat_noise_done:
  "\<not> nsamples a < L \<Longrightarrow> repeat_noise a L = Some a"
  by (subst repeat_noise.simps) simp

lemma repeat_noise_step:
  "nsamples a < L \<Longrightarrow> repeat_noise a L = repeat_noise (concatenate_axis1 a a) L"
  by (subst repeat_noise.simps) simp

lemma has_shape_nsamples: "has_shape c n a \<Longrightarrow> 0 < c \<Longrightarrow> nsamples a = n"
  by (cases a) (auto simp: has_shape_def nsamples_def)

lemma concatenate_axis1_self: "concatenate_axis1 a a = map (\<lambda>r. r @ r) a"
  by (induction a) (auto simp: concatenate_axis1_def)

lemma nsamples_concatenate: "nsamples (concatenate_axis1 a a) = 2 * nsamples a"
  by (cases a) (auto simp: nsamples_def concatenate_axis1_def)

lemma has_shape_concatenate:
  "has_shape c n a \<Longrightarrow> has_shape c (2 * n) (concatenate_axis1 a a)"
  by (auto simp: has_shape_def concatenate_axis1_self list_all_iff)


lemma slice_axis1_id: "has_shape c n a \<Longrightarrow> slice_axis1 n a = a"
  by (auto simp: has_shape_def slice_axis1_def list_all_iff intro: map_idI)


text \<open>
  With at least one channel and at least one sample per channel the loop exits, after the
  least number \<open>k\<close> of doublings that reaches the target length.
\<close>

lemma repeat_noise_terminates:
  "has_shape c M a \<Longrightarrow> 0 < c \<Longrightarrow> 0 < M \<Longrightarrow>
   \<exists>k. repeat_noise a L = Some (doubled k a) \<and> L \<le> M * 2 ^ k \<and> (\<forall>j<k. M * 2 ^ j < L)"
proof (induction "L - M" arbitrary: a M rule: less_induct)
  case less
  show ?case
  proof (cases "M < L")
    case False
    with less.prems have "repeat_noise a L = Some (doubled 0 a)"
      by (simp add: repeat_noise_done has_shape_nsamples doubled_def)
    with False show ?thesis by (intro exI[of _ 0]) simp
  next
    case True
    let ?a = "concatenate_axis1 a a"
    have sh: "has_shape c (2 * M) ?a" using less.prems(1) by (rule has_shape_concatenate)
    have "L - 2 * M < L - M" using True less.prems(3) by arith
    from less.hyps[OF this sh less.prems(2)] less.prems(3)
    obtain k where k: "repeat_noise ?a L = Some (doubled k ?a)" "L \<le> 2 * M * 2 ^ k"
      "\<forall>j<k. 2 * M * 2 ^ j < L" by auto
    have "repeat_noise a L = Some (doubled (Suc k) a)"
      using k(1) True less.prems by (simp add: repeat_noise_step has_shape_nsamples doubled_def funpow_Suc_right del: funpow.simps)
    moreover have "L \<le> M * 2 ^ Suc k" using k(2) by (simp add: mult.commute mult.left_commute)
    moreover have "\<forall>j<Suc k. M * 2 ^ j < L"
    proof (intro allI impI)
      fix j assume "j < Suc k"
      show "M * 2 ^ j < L"
      proof (cases j)
        case 0 with True show ?thesis by simp
      next
        case (Suc i)
        with \<open>j < Suc k\<close> k(3) have "2 * M * 2 ^ i < L" by simp
        with Suc show ?thesis by (simp add: mult.commute mult.left_commute)
      qed
    qed
    ultimately show ?thesis by blast
  qed
qed

text \<open>
  A loop that exits on a buffer with no sample had nothing to reach: the target length
  was zero. So on an empty buffer and a positive target it does not exit.
\<close>

lemma repeat_noise_Some_nonempty:
  "repeat_noise a L = Some r \<Longrightarrow> nsamples a = 0 \<Longrightarrow> L = 0"
proof (induction a L r rule: repeat_noise.raw_induct[rotated 1, consumes 1])
  case (1 rn a L r)
  show ?case
  proof (cases "nsamples a < L")
    case True
    with 1(2) have "rn (concatenate_axis1 a a) L = Some r" by simp
    from 1(1)[OF this] 1(3) show ?thesis by (simp add: nsamples_concatenate)
  next
    case False with 1(3) show ?thesis by simp
  qed
qed

lemma repeat_noise_empty_diverges:
  "nsamples a = 0 \<Longrightarrow> 0 < L \<Longrightarrow> repeat_noise a L = None"
  using repeat_noise_Some_nonempty[of a L] by (cases "repeat_noise a L") auto



text \<open>
  Claim C9. When the noise buffer of shape \<open>(2, M)\<close> already has the target length,
  \<open>adjust_noise_duration\<close> returns it unchanged, element for element.
\<close>

theorem adjust_noise_duration_same_length:
  assumes "has_shape 2 M noise_samples"
    and "nsamples (samples degraded_audio_file) = M"
  shows "adjust_noise_duration noise_samples degraded_audio_file = Some noise_samples"
  using assms
  by (simp add: adjust_noise_duration_def repeat_noise_done has_shape_nsamples
      slice_axis1_id)

theorem adjust_noise_duration_same_length_witness:
  "has_shape 2 2 [[Fin 1, Fin 2], [Fin 3, Fin 4]]
   \<and> nsamples (samples (example_file [[Fin 0, Fin 0], [Fin 0, Fin 0]])) = 2
   \<and> adjust_noise_duration [[Fin 1, Fin 2], [Fin 3, Fin 4]]
        (example_file [[Fin 0, Fin 0], [Fin 0, Fin 0]])
      = Some [[Fin 1, Fin 2], [Fin 3, Fin 4]]"
proof -
  have h1: "has_shape 2 2 [[Fin 1, Fin 2], [Fin 3, Fin 4]]" by (simp add: has_shape_def)
  have h2: "nsamples (samples (example_file [[Fin 0, Fin 0], [Fin 0, Fin 0]])) = 2"
    by (simp add: example_file_def nsamples_def)
  from adjust_noise_duration_same_length[OF h1 h2] h1 h2 show ?thesis by blast
qed

text \<open>
  Claim C10. For a noise buffer with at least one sample per channel and any target
  length the loop of \<open>adjust_noise_duration\<close> terminates, each iteration doubling the
  number of samples; with an empty noise buffer and a positive target length the length
  stays 0 and the loop never exits.
\<close>

theorem adjust_noise_duration_terminates:
  "(has_shape 2 M noise_samples \<and> 1 \<le> M \<longrightarrow>
      (\<exists>r. adjust_noise_duration noise_samples degraded_audio_file = Some r)
      \<and> nsamples (concatenate_axis1 noise_samples noise_samples) = 2 * M)
   \<and> (has_shape 2 0 empty_samples \<and> 0 < nsamples (samples degraded_audio_file) \<longrightarrow>
        adjust_noise_duration empty_samples degraded_audio_file = None)"
proof (intro conjI impI)
  assume a: "has_shape 2 M noise_samples \<and> 1 \<le> M"
  with repeat_noise_terminates[of 2 M noise_samples "nsamples (samples degraded_audio_file)"]
  show "\<exists>r. adjust_noise_duration noise_samples degraded_audio_file = Some r"
    by (auto simp: adjust_noise_duration_def)
  from a has_shape_nsamples[of 2 M noise_samples]
  show "nsamples (concatenate_axis1 noise_samples noise_samples) = 2 * M"
    by (simp add: nsamples_concatenate)
next
  assume "has_shape 2 0 empty_samples \<and> 0 < nsamples (samples degraded_audio_file)"
  with has_shape_nsamples[of 2 0 empty_samples]
  show "adjust_noise_duration empty_samples degraded_audio_file = None"
    by (simp add: adjust_noise_duration_def repeat_noise_empty_diverges)
qed

theorem adjust_noise_duration_terminates_witness:
  "(has_shape 2 1 [[Fin 1], [Fin 2]] \<and> (1::nat) \<le> 1)
   \<and> (\<exists>r. adjust_noise_duration [[Fin 1], [Fin 2]] (example_file [[Fin 0, Fin 0], [Fin 0, Fin 0]])
            = Some r)
   \<and> nsamples (concatenate_axis1 [[Fin 1], [Fin 2]] [[Fin 1], [Fin 2]]) = 2 * 1
   \<and> (has_shape 2 0 ([[], []] :: npfloat list list)
        \<and> 0 < nsamples (samples (example_file [[Fin 0, Fin 0], [Fin 0, Fin 0]])))
   \<and> adjust_noise_duration [[], []] (example_file [[Fin 0, Fin 0], [Fin 0, Fin 0]]) = None"
proof -
  have h1: "has_shape 2 1 [[Fin 1], [Fin 2]] \<and> (1::nat) \<le> 1" by (simp add: has_shape_def)
  have h2: "has_shape 2 0 ([[], []] :: npfloat list list)
        \<and> 0 < nsamples (samples (example_file [[Fin 0, Fin 0], [Fin 0, Fin 0]]))"
    by (simp add: has_shape_def example_file_def nsamples_def)
  from adjust_noise_duration_terminates[of 1 "[[Fin 1], [Fin 2]]"
      "example_file [[Fin 0, Fin 0], [Fin 0, Fin 0]]" "[[], []]"] h1 h2
  show ?thesis by blast
qed

subsection \<open>Loading the noise\<close>

text \<open>
  Claim C8. A decoded noise signal of shape \<open>(N,)\<close> is returned by \<open>read_noise\<close> as a
  buffer of shape \<open>(2, N)\<close> whose two channels are both the decoded signal.
\<close>

theorem read_noise_mono:
  assumes "load e noise_path (sample_rate degraded_audio_file) = Inr (OneDim aux_x_noise)"
  shows "read_noise e noise_path degraded_audio_file = Inr [aux_x_noise, aux_x_noise]
         \<and> has_shape 2 (length aux_x_noise) [aux_x_noise, aux_x_noise]"
  using assms by (simp add: read_noise_def np_zeros_def has_shape_def numeral_2_eq_2)

theorem read_noise_mono_witness:
  "load (example_env (OneDim [Fin 1, Fin 2])) ''/tmp/noise.wav'' (sample_rate (example_file []))
     = Inr (OneDim [Fin 1, Fin 2])
   \<and> read_noise (example_env (OneDim [Fin 1, Fin 2])) ''/tmp/noise.wav'' (example_file [])
     = Inr [[Fin 1, Fin 2], [Fin 1, Fin 2]]
   \<and> has_shape 2 (length [Fin 1, Fin 2]) [[Fin 1, Fin 2], [Fin 1, Fin 2]]"
proof -
  have h: "load (example_env (OneDim [Fin 1, Fin 2])) ''/tmp/noise.wav''
      (sample_rate (example_file [])) = Inr (OneDim [Fin 1, Fin 2])"
    by (simp add: example_env_def)
  from read_noise_mono[OF h] h show ?thesis by blast
qed

subsection \<open>Resolving the noise path\<close>

lemma os_path_join_relative:
  "a \<noteq> [] \<Longrightarrow> last a \<noteq> CHR ''/'' \<Longrightarrow> b = [] \<or> hd b \<noteq> CHR ''/'' \<Longrightarrow>
   os_path_join a b = a @ ''/'' @ b"
  by (cases b) (auto simp: os_path_join_def)

lemma os_path_join_absolute: "os_path_join a (CHR ''/'' # b) = CHR ''/'' # b"
  by (simp add: os_path_join_def)

lemma os_path_join_resources:
  "os_path_join p ''resources''
     = (if p = [] \<or> last p = CHR ''/'' then p else p @ ''/'') @ ''resources''"
  by (simp add: os_path_join_def)

text \<open>
  Claim C6, as the code has it. If the value of the \<open>noise\<close> parameter names an
  existing file, \<open>get_actual_noise_path\<close> returns it verbatim. Otherwise a value that
  does not start with \<open>/\<close> is returned under the \<^verbatim>\<open>resources\<close> subdirectory of the
  package directory, and a value that starts with \<open>/\<close> is returned as it is.
\<close>

theorem get_actual_noise_path_resolution:
  assumes "parameters_values self ''noise'' = Some noise"
  shows "get_actual_noise_path e self =
           Inr (if isfile e noise then noise
                else if (case noise of [] \<Rightarrow> False | c # _ \<Rightarrow> c = CHR ''/'') then noise
                else (if package_path e = [] \<or> last (package_path e) = CHR ''/''
                      then package_path e else package_path e @ ''/'')
                     @ ''resources/'' @ noise)"
proof (cases "case noise of [] \<Rightarrow> False | c # _ \<Rightarrow> c = CHR ''/''")
  case True
  then obtain rest where "noise = CHR ''/'' # rest" by (cases noise) auto
  with assms show ?thesis
    by (simp add: get_actual_noise_path_def os_path_join_absolute)
next
  case False
  let ?dir = "os_path_join (package_path e) ''resources''"
  have d: "?dir \<noteq> []" "last ?dir \<noteq> CHR ''/''"
    by (simp_all add: os_path_join_resources)
  from False have "noise = [] \<or> hd noise \<noteq> CHR ''/''" by (cases noise) auto
  from os_path_join_relative[OF d this]
  have "os_path_join ?dir noise = ?dir @ ''/'' @ noise" .
  with assms False show ?thesis
    by (simp add: get_actual_noise_path_def os_path_join_resources)
qed

theorem get_actual_noise_path_resolution_witness:
  "parameters_values (example_mix ''0'') ''noise'' = Some ''/tmp/noise.wav''
   \<and> get_actual_noise_path (example_env (OneDim [])) (example_mix ''0'') = Inr ''/tmp/noise.wav''
   \<and> parameters_values \<lparr>parameters_values = [''noise'' \<mapsto> ''sounds/ambience-pub.wav'']\<rparr> ''noise''
        = Some ''sounds/ambience-pub.wav''
   \<and> get_actual_noise_path (example_env (OneDim []))
        \<lparr>parameters_values = [''noise'' \<mapsto> ''sounds/ambience-pub.wav'']\<rparr>
      = Inr ''/site-packages/audio_degrader/resources/sounds/ambience-pub.wav''"
proof -
  have h1: "parameters_values (example_mix ''0'') ''noise'' = Some ''/tmp/noise.wav''"
    by (simp add: example_mix_def)
  have h2: "parameters_values \<lparr>parameters_values = [''noise'' \<mapsto> ''sounds/ambience-pub.wav'']\<rparr> ''noise''
        = Some ''sounds/ambience-pub.wav''" by simp
  have c1: "get_actual_noise_path (example_env (OneDim [])) (example_mix ''0'') = Inr ''/tmp/noise.wav''"
    using get_actual_noise_path_resolution[OF h1, of "example_env (OneDim [])"]
    by (simp add: example_env_def)
  have c2: "get_actual_noise_path (example_env (OneDim []))
        \<lparr>parameters_values = [''noise'' \<mapsto> ''sounds/ambience-pub.wav'']\<rparr>
      = Inr ''/site-packages/audio_degrader/resources/sounds/ambience-pub.wav''"
    using get_actual_noise_path_resolution[OF h2, of "example_env (OneDim [])"]
    by (simp add: example_env_def)
  show ?thesis by (intro conjI) (rule h1 h2 c1 c2)+
qed

text \<open>
  Claim C6, as stated, fails on a value that is no file and starts with \<open>/\<close>:
  \<^verbatim>\<open>os.path.join\<close> drops the resources directory and returns the value itself.
\<close>

theorem get_actual_noise_path_absolute_value:
  "parameters_values \<lparr>parameters_values = [''noise'' \<mapsto> ''/abs/missing.wav'']\<rparr> ''noise''
     = Some ''/abs/missing.wav''
   \<and> \<not> isfile (example_env (OneDim [])) ''/abs/missing.wav''
   \<and> get_actual_noise_path (example_env (OneDim []))
        \<lparr>parameters_values = [''noise'' \<mapsto> ''/abs/missing.wav'']\<rparr>
      = Inr ''/abs/missing.wav''
   \<and> os_path_join (package_path (example_env (OneDim []))) ''resources''
      = ''/site-packages/audio_degrader/resources''
   \<and> \<not> prefix ''/site-packages/audio_degrader/resources'' ''/abs/missing.wav''"
  by (simp add: get_actual_noise_path_def example_env_def os_path_join_def)

subsection \<open>The two floating-point units\<close>


lemma range_unit_sel: "rounding range_unit = range_only" "pow_rounding range_unit = range_only"
  by (simp_all add: range_unit_def)

lemma range_only_zero: "range_only 0 = Fin 0"
  by (simp add: range_only_def)

lemma range_bounds:
  "1 / (2::real) ^ 1075 < 1 / 4" "(2::real) ^ 20 < 2 ^ 1024 - 2 ^ 970"
proof -
  have "(2::real) ^ 970 * 2 \<le> 2 ^ 970 * 2 ^ 54" by (intro mult_left_mono) simp_all
  then have "(2::real) ^ 971 \<le> 2 ^ 1024" by (simp add: power_add[symmetric])
  moreover have "(2::real) ^ 971 = 2 ^ 970 + 2 ^ 970" by simp
  moreover have "(2::real) ^ 20 < 2 ^ 970" by (rule power_strict_increasing) simp_all
  ultimately show "(2::real) ^ 20 < 2 ^ 1024 - 2 ^ 970" by linarith
  have "(2::real) ^ 3 \<le> 2 ^ 1075" by (rule power_increasing) simp_all
  then have "1 / (2::real) ^ 1075 \<le> 1 / 2 ^ 3" by (intro divide_left_mono) simp_all
  moreover have "1 / (2::real) ^ 3 < 1 / 4" by simp
  ultimately show "1 / (2::real) ^ 1075 < 1 / 4" by linarith
qed

lemma range_only_small:
  assumes "1 / 4 \<le> \<bar>x\<bar>" and "\<bar>x\<bar> \<le> 2 ^ 20"
  shows "range_only x = Fin x"
proof -
  note b = range_bounds
  have c1: "\<not> 2 ^ 1024 - 2 ^ 970 \<le> x" using assms(2) b(2) by linarith
  have c2: "\<not> x \<le> - (2 ^ 1024 - 2 ^ 970)" using assms(2) b(2) by linarith
  have c3: "\<not> \<bar>x\<bar> \<le> 1 / 2 ^ 1075" using assms(1) b(1) by linarith
  show ?thesis unfolding range_only_def by (simp only: c1 c2 c3 if_False)
qed

text \<open>
  The range-only rounding keeps zero and the order of the exact results.
\<close>

lemma range_only_mono:
  assumes "a \<le> b" and "range_only a = Fin x" and "range_only b = Fin y"
  shows "x \<le> y"
proof -
  have t: "(0::real) < 1 / 2 ^ 1075" by simp
  from assms(2) have xa: "(x = 0 \<and> \<bar>a\<bar> \<le> 1 / 2 ^ 1075) \<or> (x = a \<and> \<not> \<bar>a\<bar> \<le> 1 / 2 ^ 1075)"
    unfolding range_only_def by (simp split: if_splits del: power_numeral)
  from assms(3) have yb: "(y = 0 \<and> \<bar>b\<bar> \<le> 1 / 2 ^ 1075) \<or> (y = b \<and> \<not> \<bar>b\<bar> \<le> 1 / 2 ^ 1075)"
    unfolding range_only_def by (simp split: if_splits del: power_numeral)
  from xa yb assms(1) t show ?thesis by linarith
qed

lemma monotone_range_only: "monotone_rounding range_only"
  unfolding monotone_rounding_def using range_only_mono range_only_zero by blast

text \<open>
  Powers of ten out of the range: \<open>10 ^ 400\<close> and beyond overflow, \<open>10 ^ -380\<close> and
  below are zero.
\<close>

lemma pow_10_overflows:
  assumes "400 \<le> n"
  shows "range_only (10 powr real n) = PInf"
proof -
  have "(2::real) ^ 1024 \<le> 2 ^ 1200" by (rule power_increasing) simp_all
  also have "\<dots> = (2 ^ 3) ^ 400" by (simp add: power_mult[symmetric])
  also have "\<dots> \<le> (10::real) ^ 400" by (rule power_mono) simp_all
  also have "\<dots> \<le> 10 ^ n" using assms by (intro power_increasing) simp_all
  finally have "(2::real) ^ 1024 - 2 ^ 970 \<le> 10 ^ n" by simp
  moreover have "(10::real) powr real n = 10 ^ n" by (simp add: powr_realpow)
  ultimately have c: "2 ^ 1024 - 2 ^ 970 \<le> (10::real) powr real n" by (simp only:)
  show ?thesis unfolding range_only_def by (simp only: c if_True)
qed

lemma pow_10_400_overflows: "range_only (10 powr 400) = PInf"
proof -
  have "(2::real) ^ 1024 \<le> 2 ^ 1200" by (rule power_increasing) simp_all
  also have "\<dots> = (2 ^ 3) ^ 400" by (simp add: power_mult[symmetric])
  also have "\<dots> \<le> (10::real) ^ 400" by (rule power_mono) simp_all
  finally have "(2::real) ^ 1024 - 2 ^ 970 \<le> 10 ^ 400" by simp
  moreover have "(10::real) powr 400 = 10 ^ 400" by (simp add: powr_numeral)
  ultimately have c: "2 ^ 1024 - 2 ^ 970 \<le> (10::real) powr 400" by (simp only:)
  show ?thesis unfolding range_only_def by (simp only: c if_True)
qed

lemma pow_10_underflows:
  assumes "380 \<le> n"
  shows "range_only (10 powr (- real n)) = Fin 0"
proof -
  note b = range_bounds
  have "(2::real) ^ 1075 \<le> 2 ^ 1140" by (rule power_increasing) simp_all
  also have "\<dots> = (2 ^ 3) ^ 380" by (simp add: power_mult[symmetric])
  also have "\<dots> \<le> (10::real) ^ 380" by (rule power_mono) simp_all
  also have "\<dots> \<le> 10 ^ n" using assms by (intro power_increasing) simp_all
  finally have le: "(2::real) ^ 1075 \<le> 10 ^ n" .
  have p: "(10::real) powr (- real n) = 1 / 10 ^ n"
    by (simp add: powr_minus powr_realpow inverse_eq_divide)
  have u: "1 / (10::real) ^ n \<le> 1 / 2 ^ 1075" using le by (intro divide_left_mono) simp_all
  have pos: "0 < 1 / (10::real) ^ n" by simp
  have g: "(1::real) < 2 ^ 20" by simp
  have c1: "\<not> 2 ^ 1024 - 2 ^ 970 \<le> 1 / (10::real) ^ n" using u b g by linarith
  have c2: "\<not> 1 / (10::real) ^ n \<le> - (2 ^ 1024 - 2 ^ 970)" using pos b g by linarith
  have c3: "\<bar>1 / (10::real) ^ n\<bar> \<le> 1 / 2 ^ 1075" using u pos by linarith
  show ?thesis unfolding range_only_def p by (simp only: c1 c2 c3 if_False if_True)
qed

lemma range_steps:
  "rounding range_unit (20 / 20) = Fin 1"
  "rounding range_unit (10 / 2) = Fin 5"
  "pow_rounding range_unit (10 powr 1) = Fin 10"
  "rounding range_unit (5 / 10) = Fin (1 / 2)"
  "rounding range_unit (0 / 20) = Fin 0"
  "pow_rounding range_unit (10 powr 0) = Fin 1"
  "rounding range_unit (5 / 1) = Fin 5"
  by (simp_all add: range_unit_sel range_only_small range_only_zero)

lemma range_steps_far:
  "rounding range_unit (10000 / 20) = Fin 500"
  "pow_rounding range_unit (10 powr 500) = PInf"
  "rounding range_unit (- 10000 / 20) = Fin (- 500)"
  "pow_rounding range_unit (10 powr (- 500)) = Fin 0"
  "rounding range_unit (- 8000 / 20) = Fin (- 400)"
  "pow_rounding range_unit (10 powr (- 400)) = Fin 0"
  "rounding range_unit (- 7600 / 20) = Fin (- 380)"
  "pow_rounding range_unit (10 powr (- 380)) = Fin 0"
proof -
  show "rounding range_unit (10000 / 20) = Fin 500"
    "rounding range_unit (- 10000 / 20) = Fin (- 500)"
    "rounding range_unit (- 8000 / 20) = Fin (- 400)"
    "rounding range_unit (- 7600 / 20) = Fin (- 380)"
    by (simp_all add: range_unit_sel range_only_small)
  show "pow_rounding range_unit (10 powr 500) = PInf"
    using pow_10_overflows[of 500] by (simp only: range_unit_sel) simp
  show "pow_rounding range_unit (10 powr (- 500)) = Fin 0"
    using pow_10_underflows[of 500] by (simp only: range_unit_sel) simp
  show "pow_rounding range_unit (10 powr (- 400)) = Fin 0"
    using pow_10_underflows[of 400] by (simp only: range_unit_sel) simp
  show "pow_rounding range_unit (10 powr (- 380)) = Fin 0"
    using pow_10_underflows[of 380] by (simp only: range_unit_sel) simp
qed

lemma pow10_range_zero: "pow10 range_unit (fdiv range_unit (Fin 0) (Fin 20)) = Inr (Fin 1)"
  by (simp add: range_unit_sel range_only_zero range_only_small)

lemma pow10_range_8000: "pow10 range_unit (fdiv range_unit (Fin 8000) (Fin 20)) = Inl OverflowError"
proof -
  have d: "fdiv range_unit (Fin 8000) (Fin 20) = Fin 400"
    by (simp add: range_unit_sel range_only_small)
  show ?thesis
    unfolding d by (simp only: pow10.simps range_unit_sel pow_10_400_overflows npfloat.case)
qed


subsection \<open>Arithmetic on special values\<close>





lemma fdiv_NaN_right: "fdiv u a NaN = NaN"
  by (cases a) simp_all

lemma fdiv_by_zero_not_finite: "\<not> is_finite (fdiv u a (Fin 0))"
  by (cases a) simp_all

lemma fdiv_not_finite_left: "\<not> is_finite a \<Longrightarrow> \<not> is_finite (fdiv u a b)"
  by (cases a; cases b) simp_all

lemma fmul_not_finite_right: "\<not> is_finite g \<Longrightarrow> \<not> is_finite (fmul u v g)"
  by (cases v; cases g) simp_all

lemma fmul_not_finite_left: "\<not> is_finite v \<Longrightarrow> \<not> is_finite (fmul u v r)"
  by (cases v; cases r) simp_all

lemma fadd_not_finite_right: "\<not> is_finite b \<Longrightarrow> \<not> is_finite (fadd u a b)"
  by (cases a; cases b) simp_all

lemma fsquare_not_finite: "\<not> is_finite v \<Longrightarrow> fsquare u v = PInf \<or> fsquare u v = NaN"
  by (cases v) simp_all

lemma fadd_inf_or_nan:
  "a = Fin 0 \<or> a = PInf \<or> a = NaN \<Longrightarrow> b = PInf \<or> b = NaN \<Longrightarrow>
   fadd u a b = PInf \<or> fadd u a b = NaN"
  by auto

lemma foldl_fadd_inf_or_nan:
  "acc = PInf \<or> acc = NaN \<Longrightarrow> list_all (\<lambda>v. v = PInf \<or> v = NaN) xs \<Longrightarrow>
   foldl (fadd u) acc xs = PInf \<or> foldl (fadd u) acc xs = NaN"
proof (induction xs arbitrary: acc)
  case Nil then show ?case by simp
next
  case (Cons x xs)
  have "fadd u acc x = PInf \<or> fadd u acc x = NaN"
    using Cons.prems by (intro fadd_inf_or_nan) auto
  from Cons.IH[OF this] Cons.prems(2) show ?case by simp
qed


subsection \<open>Root mean square, in any arithmetic\<close>

lemma has_shape_2:
  "has_shape 2 L a \<longleftrightarrow> (\<exists>r0 r1. a = [r0, r1] \<and> length r0 = L \<and> length r1 = L)"
proof
  assume h: "has_shape 2 L a"
  then obtain r0 r1 where "a = [r0, r1]"
    by (cases a; cases "tl a"; cases "tl (tl a)") (auto simp: has_shape_def)
  with h show "\<exists>r0 r1. a = [r0, r1] \<and> length r0 = L \<and> length r1 = L"
    by (auto simp: has_shape_def)
qed (auto simp: has_shape_def)

text \<open>
  A buffer with at least one sample and no finite sample has an infinite or NaN RMS.
\<close>

lemma rms_not_finite:
  assumes "concat a \<noteq> []" and "list_all (list_all (\<lambda>v. \<not> is_finite v)) a"
  shows "rms u a = PInf \<or> rms u a = NaN"
proof -
  let ?sq = "concat (map (map (fsquare u)) a)"
  have sq: "list_all (\<lambda>v. v = PInf \<or> v = NaN) ?sq"
    using assms(2) by (auto simp: list_all_iff dest: fsquare_not_finite)
  have ne: "?sq \<noteq> []" using assms(1) by (induction a) auto
  then obtain x xs where x: "?sq = x # xs" by (cases ?sq) auto
  with sq have "fadd u (Fin 0) x = PInf \<or> fadd u (Fin 0) x = NaN"
    by (intro fadd_inf_or_nan) auto
  from foldl_fadd_inf_or_nan[OF this, of xs] sq x
  have s: "foldl (fadd u) (Fin 0) ?sq = PInf \<or> foldl (fadd u) (Fin 0) ?sq = NaN" by simp
  then have "np_mean u (map (map (fsquare u)) a) = PInf \<or> np_mean u (map (map (fsquare u)) a) = NaN"
    unfolding np_mean_def by auto
  then show ?thesis unfolding rms_def by auto
qed


lemma rms_empty: "rms u [[], []] = NaN"
  by (simp add: rms_def np_mean_def)


subsection \<open>Root mean square, in exact arithmetic\<close>












lemma rms_range_one_sample:
  "1 / 2 \<le> \<bar>a\<bar> \<Longrightarrow> \<bar>a\<bar> \<le> 16 \<Longrightarrow> rms range_unit [[Fin a], [Fin a]] = Fin \<bar>a\<bar>"
proof -
  assume a: "1 / 2 \<le> \<bar>a\<bar>" "\<bar>a\<bar> \<le> 16"
  have sq: "1 / 4 \<le> a * a" "a * a \<le> 256"
  proof -
    have "1 / 2 * (1 / 2) \<le> \<bar>a\<bar> * \<bar>a\<bar>" using a(1) by (intro mult_mono) simp_all
    then show "1 / 4 \<le> a * a" by (simp add: abs_mult_self_eq)
    have "\<bar>a\<bar> * \<bar>a\<bar> \<le> 16 * 16" using a(2) by (intro mult_mono) simp_all
    then show "a * a \<le> 256" by (simp add: abs_mult_self_eq)
  qed
  have r1: "range_only (a * a) = Fin (a * a)" using sq by (intro range_only_small) simp_all
  have r2: "range_only (a * a + a * a) = Fin (a * a + a * a)"
    using sq by (intro range_only_small) simp_all
  have r3: "range_only (2 * (a * a)) = Fin (2 * (a * a))"
    using sq by (intro range_only_small) simp_all
  have r4: "range_only \<bar>a\<bar> = Fin \<bar>a\<bar>" using a by (intro range_only_small) simp_all
  have s: "sqrt (a * a) = \<bar>a\<bar>" by simp
  have n: "\<not> a * a < 0" by simp
  show ?thesis
    by (simp add: rms_def np_mean_def range_unit_sel r1 r2 r3 r4 s n del: real_sqrt_abs2)
qed

lemma rms_range_silent: "rms range_unit [[Fin 0], [Fin 0]] = Fin 0"
  by (simp add: rms_def np_mean_def range_unit_sel range_only_zero)

subsection \<open>The gain of the noise\<close>

text \<open>
  Claim C2, as the code has it. On finite values with a nonzero noise RMS, where \<open>x\<close>
  is the rounded \<open>s / 20\<close> and \<open>q\<close> the rounded \<open>rms_input / rms_noise\<close>: the gain
  computation raises OverflowError when \<open>10 ** x\<close> overflows; it returns the rounded
  \<open>q / p\<close> when \<open>10 ** x\<close> is a nonzero number \<open>p\<close>; and it returns the quotient of
  \<open>q\<close> by zero, an infinity or a NaN, when \<open>10 ** x\<close> underflows to zero. The exponent
  is \<open>s / 20\<close>.
\<close>

theorem get_noise_gain_factor_formula:
  assumes "rms_noise \<noteq> 0"
    and "rounding u (s / 20) = Fin x"
    and "rounding u (rms_input / rms_noise) = Fin q"
  shows "(pow_rounding u (10 powr x) = PInf \<longrightarrow>
            get_noise_gain_factor u (Fin s) (Fin rms_noise) (Fin rms_input) = Inl OverflowError)
       \<and> (\<forall>p. pow_rounding u (10 powr x) = Fin p \<and> p \<noteq> 0 \<longrightarrow>
            get_noise_gain_factor u (Fin s) (Fin rms_noise) (Fin rms_input)
              = Inr (rounding u (q / p)))
       \<and> (pow_rounding u (10 powr x) = Fin 0 \<longrightarrow>
            get_noise_gain_factor u (Fin s) (Fin rms_noise) (Fin rms_input)
              = Inr (if q = 0 then NaN else if 0 < q then PInf else NInf))"
  using assms by (simp add: get_noise_gain_factor_def)

theorem get_noise_gain_factor_formula_witness:
  "(2::real) \<noteq> 0
   \<and> rounding range_unit (20 / 20) = Fin 1
   \<and> rounding range_unit (10 / 2) = Fin 5
   \<and> pow_rounding range_unit (10 powr 1) = Fin 10 \<and> (10::real) \<noteq> 0
   \<and> get_noise_gain_factor range_unit (Fin 20) (Fin 2) (Fin 10) = Inr (Fin (1 / 2))
   \<and> rounding range_unit (10000 / 20) = Fin 500
   \<and> pow_rounding range_unit (10 powr 500) = PInf
   \<and> get_noise_gain_factor range_unit (Fin 10000) (Fin 2) (Fin 10) = Inl OverflowError
   \<and> rounding range_unit (- 10000 / 20) = Fin (- 500)
   \<and> pow_rounding range_unit (10 powr (- 500)) = Fin 0
   \<and> get_noise_gain_factor range_unit (Fin (- 10000)) (Fin 2) (Fin 10) = Inr PInf"
proof -
  have n: "(2::real) \<noteq> 0" and t: "(10::real) \<noteq> 0" by simp_all
  note a = get_noise_gain_factor_formula[OF n range_steps(1) range_steps(2)]
  have c1: "get_noise_gain_factor range_unit (Fin 20) (Fin 2) (Fin 10) = Inr (Fin (1 / 2))"
    using a range_steps(3,4) by simp
  note b = get_noise_gain_factor_formula[OF n range_steps_far(1) range_steps(2)]
  have c2: "get_noise_gain_factor range_unit (Fin 10000) (Fin 2) (Fin 10) = Inl OverflowError"
    using b range_steps_far(2) by simp
  note c = get_noise_gain_factor_formula[OF n range_steps_far(3) range_steps(2)]
  have c3: "get_noise_gain_factor range_unit (Fin (- 10000)) (Fin 2) (Fin 10) = Inr PInf"
    using c range_steps_far(4) by simp
  show ?thesis
    by (intro conjI)
      (rule n t range_steps(1) range_steps(2) range_steps(3) c1 range_steps_far(1)
        range_steps_far(2) c2 range_steps_far(3) range_steps_far(4) c3)+
qed

text \<open>
  Claim C2, as stated, fails on a large target SNR: at 8000 dB the power \<open>10 ** 400\<close>
  is out of range, line 82 raises OverflowError and no gain is returned.
\<close>

theorem get_noise_gain_factor_overflow:
  "get_noise_gain_factor range_unit (Fin 8000) (Fin 2) (Fin 10) = Inl OverflowError"
  unfolding get_noise_gain_factor_def pow10_range_8000 by simp

text \<open>
  Claim C7, as the code has it. For fixed, finite and strictly positive \<open>rms_noise\<close>
  and \<open>rms_input\<close>, and with a rounding and a \<open>pow\<close> that keep zero and the order, the
  gain does not increase with the target SNR: for \<open>s1 < s2\<close> at which line 82 returns a
  number and the gain is finite, the gain at \<open>s2\<close> is at most the gain at \<open>s1\<close>.
\<close>

theorem get_noise_gain_factor_decreasing:
  assumes mr: "monotone_rounding (rounding u)" and mp: "monotone_rounding (pow_rounding u)"
    and pos: "0 < rms_noise" "0 < rms_input" and lt: "s1 < s2"
    and x1: "rounding u (s1 / 20) = Fin x1" and x2: "rounding u (s2 / 20) = Fin x2"
    and p1: "pow_rounding u (10 powr x1) = Fin p1" and p2: "pow_rounding u (10 powr x2) = Fin p2"
    and g1: "get_noise_gain_factor u (Fin s1) (Fin rms_noise) (Fin rms_input) = Inr (Fin g1)"
    and g2: "get_noise_gain_factor u (Fin s2) (Fin rms_noise) (Fin rms_input) = Inr (Fin g2)"
  shows "g2 \<le> g1"
proof -
  let ?q = "rounding u (rms_input / rms_noise)"
  from mr have zero: "rounding u 0 = Fin 0"
    and mono: "\<forall>a b x y. a \<le> b \<and> rounding u a = Fin x \<and> rounding u b = Fin y \<longrightarrow> x \<le> y"
    by (simp_all add: monotone_rounding_def)
  from mp have pzero: "pow_rounding u 0 = Fin 0"
    and pmono: "\<forall>a b x y. a \<le> b \<and> pow_rounding u a = Fin x \<and> pow_rounding u b = Fin y
        \<longrightarrow> x \<le> y"
    by (simp_all add: monotone_rounding_def)
  have n: "rms_noise \<noteq> 0" using pos by simp
  from g1 x1 p1 n have d1: "fdiv u ?q (Fin p1) = Fin g1"
    by (simp add: get_noise_gain_factor_def)
  from g2 x2 p2 n have d2: "fdiv u ?q (Fin p2) = Fin g2"
    by (simp add: get_noise_gain_factor_def)
  from d1 obtain q where q: "?q = Fin q" by (cases ?q) (auto split: if_splits)
  from d1 q have r1: "p1 \<noteq> 0" "rounding u (q / p1) = Fin g1" by (auto split: if_splits)
  from d2 q have r2: "p2 \<noteq> 0" "rounding u (q / p2) = Fin g2" by (auto split: if_splits)
  have "0 \<le> rms_input / rms_noise" using pos by simp
  with mono zero q have q0: "0 \<le> q" by blast
  have "(0::real) \<le> 10 powr x1" by simp
  with pmono pzero p1 have "0 \<le> p1" by blast
  with r1(1) have p1pos: "0 < p1" by simp
  have "s1 / 20 \<le> s2 / 20" using lt by simp
  with mono x1 x2 have "x1 \<le> x2" by blast
  then have "(10::real) powr x1 \<le> 10 powr x2" by (simp add: powr_mono)
  with pmono p1 p2 have p12: "p1 \<le> p2" by blast
  have "q / p2 \<le> q / p1" using q0 p1pos p12 by (intro divide_left_mono) simp_all
  with mono r1(2) r2(2) show ?thesis by blast
qed

theorem get_noise_gain_factor_decreasing_witness:
  "monotone_rounding (rounding range_unit) \<and> monotone_rounding (pow_rounding range_unit)
   \<and> (0::real) < 2 \<and> (0::real) < 10 \<and> (0::real) < 20
   \<and> rounding range_unit (0 / 20) = Fin 0 \<and> rounding range_unit (20 / 20) = Fin 1
   \<and> pow_rounding range_unit (10 powr 0) = Fin 1 \<and> pow_rounding range_unit (10 powr 1) = Fin 10
   \<and> get_noise_gain_factor range_unit (Fin 0) (Fin 2) (Fin 10) = Inr (Fin 5)
   \<and> get_noise_gain_factor range_unit (Fin 20) (Fin 2) (Fin 10) = Inr (Fin (1 / 2))
   \<and> (1 / 2 :: real) \<le> 5"
proof -
  have m: "monotone_rounding (rounding range_unit)"
    and pm: "monotone_rounding (pow_rounding range_unit)"
    by (simp_all only: range_unit_sel monotone_range_only)
  have h1: "(0::real) < 2" and h2: "(0::real) < 10" and h3: "(0::real) < 20" by simp_all
  have g1: "get_noise_gain_factor range_unit (Fin 0) (Fin 2) (Fin 10) = Inr (Fin 5)"
    using range_steps by (simp add: get_noise_gain_factor_def)
  have g2: "get_noise_gain_factor range_unit (Fin 20) (Fin 2) (Fin 10) = Inr (Fin (1 / 2))"
    using range_steps by (simp add: get_noise_gain_factor_def)
  note c = get_noise_gain_factor_decreasing[OF m pm h1 h2 h3 range_steps(5) range_steps(1)
      range_steps(6) range_steps(3) g1 g2]
  show ?thesis
    by (intro conjI) (rule m pm h1 h2 h3 range_steps(5) range_steps(1) range_steps(6)
        range_steps(3) g1 g2 c)+
qed

text \<open>
  Claim C7, as stated, fails where two target SNRs round to the same power of ten: at
  -8000 dB and at -7600 dB the power underflows to zero and both gains are the same
  infinity.
\<close>

theorem get_noise_gain_factor_not_strict:
  "(- 8000 :: real) < - 7600 \<and> (0::real) < 2 \<and> (0::real) < 10
   \<and> get_noise_gain_factor range_unit (Fin (- 8000)) (Fin 2) (Fin 10) = Inr PInf
   \<and> get_noise_gain_factor range_unit (Fin (- 7600)) (Fin 2) (Fin 10) = Inr PInf"
proof -
  have n: "(2::real) \<noteq> 0" by simp
  have c1: "get_noise_gain_factor range_unit (Fin (- 8000)) (Fin 2) (Fin 10) = Inr PInf"
    using range_steps_far(5,6) range_steps(2)
    by (simp add: get_noise_gain_factor_def)
  have c2: "get_noise_gain_factor range_unit (Fin (- 7600)) (Fin 2) (Fin 10) = Inr PInf"
    using range_steps_far(7,8) range_steps(2)
    by (simp add: get_noise_gain_factor_def)
  show ?thesis using c1 c2 by simp
qed

text \<open>
  On a noise whose RMS is zero or NaN the gain is not finite, whenever line 82 returns.
\<close>

lemma gain_not_finite:
  assumes "pow10 u (fdiv u snr_dbs (Fin 20)) = Inr snr_linear"
    and "rms_noise = Fin 0 \<or> rms_noise = NaN"
  shows "\<exists>g. get_noise_gain_factor u snr_dbs rms_noise rms_input = Inr g \<and> \<not> is_finite g"
proof -
  have "\<not> is_finite (fdiv u rms_input rms_noise)"
    using assms(2) by (auto simp: fdiv_by_zero_not_finite fdiv_NaN_right)
  then have "\<not> is_finite (fdiv u (fdiv u rms_input rms_noise) snr_linear)"
    by (rule fdiv_not_finite_left)
  with assms(1) show ?thesis by (simp add: get_noise_gain_factor_def)
qed

subsection \<open>Mixing and normalising without a finite value\<close>

text \<open>
  Line 99 with a gain that is not finite: no sample of the mix is finite.
\<close>

lemma mix_signals_not_finite:
  assumes "has_shape 2 L x" and "has_shape 2 L n" and "\<not> is_finite g"
  shows "\<exists>y. mix_signals u x n g = Inr y \<and> has_shape 2 L y
            \<and> list_all (list_all (\<lambda>v. \<not> is_finite v)) y"
proof -
  from assms(1) obtain x0 x1 where x: "x = [x0, x1]" "length x0 = L" "length x1 = L"
    by (auto simp: has_shape_2)
  from assms(2) obtain n0 n1 where n: "n = [n0, n1]" "length n0 = L" "length n1 = L"
    by (auto simp: has_shape_2)
  have row: "length (map2 (fadd u) xr (map (\<lambda>v. fmul u v g) nr)) = L
      \<and> list_all (\<lambda>v. \<not> is_finite v) (map2 (fadd u) xr (map (\<lambda>v. fmul u v g) nr))"
    if "length xr = L" "length nr = L" for xr nr
    using that assms(3)
    by (auto simp: list_all_iff set_zip fadd_not_finite_right fmul_not_finite_right)
  let ?y = "[map2 (fadd u) x0 (map (\<lambda>v. fmul u v g) n0), map2 (fadd u) x1 (map (\<lambda>v. fmul u v g) n1)]"
  have "mix_signals u x n g = Inr ?y" using x n by (simp add: mix_signals_def np_add_def)
  moreover have "has_shape 2 L ?y" using row x n by (simp add: has_shape_2)
  moreover have "list_all (list_all (\<lambda>v. \<not> is_finite v)) ?y" using row x n by simp
  ultimately show ?thesis by blast
qed

text \<open>
  Line 102 on a mix without a finite sample, with an infinite or NaN RMS: NaN everywhere.
\<close>

lemma normalize_not_finite:
  assumes "\<not> is_finite v" and "ry = PInf \<or> ry = NaN"
  shows "fdiv u (fmul u v ri) ry = NaN"
proof -
  have "\<not> is_finite (fmul u v ri)" using assms(1) by (rule fmul_not_finite_left)
  with assms(2) show ?thesis by (cases "fmul u v ri") auto
qed

lemma normalize_rms_not_finite:
  assumes "has_shape 2 L y" and "list_all (list_all (\<lambda>v. \<not> is_finite v)) y"
    and "ry = PInf \<or> ry = NaN"
  shows "normalize_rms u y ri ry = replicate 2 (replicate L NaN)"
proof -
  from assms(1) obtain r0 r1 where r: "y = [r0, r1]" "length r0 = L" "length r1 = L"
    by (auto simp: has_shape_2)
  have "map (\<lambda>v. fdiv u (fmul u v ri) ry) r = replicate L NaN"
    if "length r = L" "list_all (\<lambda>v. \<not> is_finite v) r" for r
  proof -
    have "map (\<lambda>v. fdiv u (fmul u v ri) ry) r = map (\<lambda>v. NaN) r"
      using that(2) assms(3) by (intro map_cong) (auto simp: list_all_iff normalize_not_finite)
    then show ?thesis using that(1) by (simp add: map_replicate_const)
  qed
  with r assms(2) show ?thesis by (simp add: normalize_rms_def numeral_2_eq_2)
qed

text \<open>
  Line 102 on a mix whose RMS is zero, in any arithmetic: every division is by zero and
  no sample written back is finite.
\<close>

lemma normalize_rms_silent:
  "list_all (list_all (\<lambda>v. \<not> is_finite v)) (normalize_rms u y ri (Fin 0))"
  by (simp add: normalize_rms_def list_all_iff fdiv_by_zero_not_finite)

subsection \<open>apply\<close>

text \<open>
  The normal return of \<open>apply\<close>: every step succeeds and the host receives the
  normalised mix.
\<close>

lemma apply_mix_returns:
  assumes "get_actual_noise_path e self = Inr noise_path"
    and "read_noise e noise_path f = Inr decoded_noise"
    and "adjust_noise_duration decoded_noise f = Some noise_samples"
    and "parameters_values self ''snr'' = Some snr_string"
    and "py_float e snr_string = Some snr_dbs"
    and "get_noise_gain_factor (fpu e) snr_dbs (rms (fpu e) noise_samples)
           (rms (fpu e) (samples f)) = Inr g"
    and "mix_signals (fpu e) (samples f) noise_samples g = Inr y"
  shows "apply_mix e self f
           = Some (Inr (), f\<lparr>samples := normalize_rms (fpu e) y (rms (fpu e) (samples f))
                                             (rms (fpu e) y)\<rparr>)"
  using assms by (simp add: apply_mix_def)


text \<open>
  The example world, step by step.
\<close>

lemma example_path:
  "get_actual_noise_path (example_env d) (example_mix s) = Inr ''/tmp/noise.wav''"
  by (simp add: get_actual_noise_path_def example_env_def example_mix_def)

lemma example_read_mono:
  "read_noise (example_env (OneDim xs)) ''/tmp/noise.wav'' f = Inr [xs, xs]"
  by (simp add: read_noise_def example_env_def np_zeros_def numeral_2_eq_2)


lemma example_snr:
  "parameters_values (example_mix s) ''snr'' = Some s"
  "py_float (example_env d) ''0'' = Some (Fin 0)"
  "py_float (example_env d) ''8000'' = Some (Fin 8000)"
  by (simp_all add: example_env_def example_mix_def)

lemma example_fpu: "fpu (example_env d) = range_unit"
  by (simp add: example_env_def)

lemma adjust_one_sample:
  "adjust_noise_duration [[a], [b]] (example_file [[c], [d]]) = Some [[a], [b]]"
  by (simp add: adjust_noise_duration_def example_file_def nsamples_def repeat_noise_done
      slice_axis1_def)

lemma adjust_no_sample:
  "adjust_noise_duration [[], []] (example_file [[], []]) = Some [[], []]"
  by (simp add: adjust_noise_duration_def example_file_def nsamples_def repeat_noise_done
      slice_axis1_def)




text \<open>
  Claim C4, as the code has it. When the duration-adjusted noise buffer has RMS 0 or
  length 0, the path, the decoding and the SNR are fine and the power of line 82 does not
  overflow, \<open>apply\<close> raises nothing: the gain is an infinity or a NaN and the host buffer is
  written with NaN in every sample (no sample at all for length 0). This holds for
  every floating-point unit.
\<close>

theorem apply_mix_degenerate_noise:
  assumes "get_actual_noise_path e self = Inr noise_path"
    and "read_noise e noise_path f = Inr decoded_noise"
    and "adjust_noise_duration decoded_noise f = Some noise_samples"
    and "parameters_values self ''snr'' = Some snr_string"
    and "py_float e snr_string = Some snr_dbs"
    and "pow10 (fpu e) (fdiv (fpu e) snr_dbs (Fin 20)) = Inr snr_linear"
    and "has_shape 2 L (samples f)"
    and "has_shape 2 L noise_samples"
    and "rms (fpu e) noise_samples = Fin 0 \<or> L = 0"
  shows "(\<exists>g. get_noise_gain_factor (fpu e) snr_dbs (rms (fpu e) noise_samples)
                (rms (fpu e) (samples f)) = Inr g \<and> \<not> is_finite g)
         \<and> apply_mix e self f = Some (Inr (), f\<lparr>samples := replicate 2 (replicate L NaN)\<rparr>)"
proof -
  let ?u = "fpu e"
  have "rms ?u noise_samples = Fin 0 \<or> rms ?u noise_samples = NaN"
  proof (cases "L = 0")
    case True
    with assms(8) have "noise_samples = [[], []]" by (auto simp: has_shape_2)
    then show ?thesis by (simp add: rms_empty)
  next
    case False with assms(9) show ?thesis by simp
  qed
  from gain_not_finite[OF assms(6) this]
  obtain g where g: "get_noise_gain_factor ?u snr_dbs (rms ?u noise_samples)
      (rms ?u (samples f)) = Inr g" "\<not> is_finite g" by blast
  from mix_signals_not_finite[OF assms(7,8) g(2)]
  obtain y where y: "mix_signals ?u (samples f) noise_samples g = Inr y" "has_shape 2 L y"
    "list_all (list_all (\<lambda>v. \<not> is_finite v)) y" by blast
  note ret = apply_mix_returns[OF assms(1-5) g(1) y(1)]
  have "normalize_rms ?u y (rms ?u (samples f)) (rms ?u y) = replicate 2 (replicate L NaN)"
  proof (cases "L = 0")
    case True
    with y(2) have "y = [[], []]" by (auto simp: has_shape_2)
    with True show ?thesis by (simp add: normalize_rms_def numeral_2_eq_2)
  next
    case False
    with y(2) have "concat y \<noteq> []" by (auto simp: has_shape_2)
    from rms_not_finite[OF this y(3)] have "rms ?u y = PInf \<or> rms ?u y = NaN" .
    from normalize_rms_not_finite[OF y(2,3) this] show ?thesis .
  qed
  with ret g show ?thesis by auto
qed

theorem apply_mix_degenerate_noise_witness:
  "get_actual_noise_path (example_env (OneDim [Fin 0])) (example_mix ''0'') = Inr ''/tmp/noise.wav''
   \<and> read_noise (example_env (OneDim [Fin 0])) ''/tmp/noise.wav'' (example_file [[Fin 1], [Fin 1]])
        = Inr [[Fin 0], [Fin 0]]
   \<and> adjust_noise_duration [[Fin 0], [Fin 0]] (example_file [[Fin 1], [Fin 1]])
        = Some [[Fin 0], [Fin 0]]
   \<and> parameters_values (example_mix ''0'') ''snr'' = Some ''0''
   \<and> py_float (example_env (OneDim [Fin 0])) ''0'' = Some (Fin 0)
   \<and> pow10 (fpu (example_env (OneDim [Fin 0])))
        (fdiv (fpu (example_env (OneDim [Fin 0]))) (Fin 0) (Fin 20)) = Inr (Fin 1)
   \<and> has_shape 2 1 (samples (example_file [[Fin 1], [Fin 1]]))
   \<and> has_shape 2 1 [[Fin 0], [Fin 0]]
   \<and> rms (fpu (example_env (OneDim [Fin 0]))) [[Fin 0], [Fin 0]] = Fin 0
   \<and> get_noise_gain_factor (fpu (example_env (OneDim [Fin 0]))) (Fin 0)
        (rms (fpu (example_env (OneDim [Fin 0]))) [[Fin 0], [Fin 0]])
        (rms (fpu (example_env (OneDim [Fin 0]))) (samples (example_file [[Fin 1], [Fin 1]])))
        = Inr PInf
   \<and> apply_mix (example_env (OneDim [Fin 0])) (example_mix ''0'') (example_file [[Fin 1], [Fin 1]])
        = Some (Inr (), example_file [[NaN], [NaN]])
   \<and> read_noise (example_env (OneDim [])) ''/tmp/noise.wav'' (example_file [[], []])
        = Inr [[], []]
   \<and> adjust_noise_duration [[], []] (example_file [[], []]) = Some [[], []]
   \<and> has_shape 2 0 (samples (example_file [[], []]))
   \<and> has_shape 2 0 ([[], []] :: npfloat list list)
   \<and> get_noise_gain_factor (fpu (example_env (OneDim []))) (Fin 0)
        (rms (fpu (example_env (OneDim []))) [[], []])
        (rms (fpu (example_env (OneDim []))) (samples (example_file [[], []])))
        = Inr NaN
   \<and> apply_mix (example_env (OneDim [])) (example_mix ''0'') (example_file [[], []])
        = Some (Inr (), example_file [[], []])"
proof -
  let ?e = "example_env (OneDim [Fin 0])" and ?empty_env = "example_env (OneDim [])"
  let ?f = "example_file [[Fin 1], [Fin 1]]" and ?empty_file = "example_file [[], []]"
  have h1: "get_actual_noise_path ?e (example_mix ''0'') = Inr ''/tmp/noise.wav''"
    by (rule example_path)
  have h2: "read_noise ?e ''/tmp/noise.wav'' ?f = Inr [[Fin 0], [Fin 0]]"
    by (rule example_read_mono)
  have h3: "adjust_noise_duration [[Fin 0], [Fin 0]] ?f = Some [[Fin 0], [Fin 0]]"
    by (rule adjust_one_sample)
  have h4: "parameters_values (example_mix ''0'') ''snr'' = Some ''0''" by (rule example_snr)
  have h5: "py_float ?e ''0'' = Some (Fin 0)" by (rule example_snr)
  have h6: "pow10 (fpu ?e) (fdiv (fpu ?e) (Fin 0) (Fin 20)) = Inr (Fin 1)"
    by (simp only: example_fpu pow10_range_zero)
  have h7: "has_shape 2 1 (samples ?f)" by (simp add: example_file_def has_shape_def)
  have h8: "has_shape 2 1 [[Fin 0], [Fin 0]]" by (simp add: has_shape_def)
  have h9: "rms (fpu ?e) [[Fin 0], [Fin 0]] = Fin 0" by (simp add: example_fpu rms_range_silent)
  have h9': "rms (fpu ?e) [[Fin 0], [Fin 0]] = Fin 0 \<or> (1::nat) = 0" using h9 by simp
  have g: "get_noise_gain_factor (fpu ?e) (Fin 0) (rms (fpu ?e) [[Fin 0], [Fin 0]])
      (rms (fpu ?e) (samples ?f)) = Inr PInf"
    unfolding example_fpu get_noise_gain_factor_def pow10_range_zero
    by (simp add: rms_range_silent example_file_def rms_range_one_sample)
  have c: "apply_mix ?e (example_mix ''0'') ?f = Some (Inr (), example_file [[NaN], [NaN]])"
    using apply_mix_degenerate_noise[OF h1 h2 h3 h4 h5 h6 h7 h8 h9']
    by (simp add: example_file_def numeral_2_eq_2)
  have k1: "get_actual_noise_path ?empty_env (example_mix ''0'') = Inr ''/tmp/noise.wav''"
    by (rule example_path)
  have k2: "read_noise ?empty_env ''/tmp/noise.wav'' ?empty_file = Inr [[], []]"
    by (rule example_read_mono)
  have k3: "adjust_noise_duration [[], []] ?empty_file = Some [[], []]" by (rule adjust_no_sample)
  have k5: "py_float ?empty_env ''0'' = Some (Fin 0)" by (rule example_snr)
  have k6: "pow10 (fpu ?empty_env) (fdiv (fpu ?empty_env) (Fin 0) (Fin 20)) = Inr (Fin 1)"
    by (simp only: example_fpu pow10_range_zero)
  have k7: "has_shape 2 0 (samples ?empty_file)" by (simp add: example_file_def has_shape_def)
  have k8: "has_shape 2 0 ([[], []] :: npfloat list list)" by (simp add: has_shape_def)
  have k9: "rms (fpu ?empty_env) [[], []] = Fin 0 \<or> (0::nat) = 0" by simp
  have g0: "get_noise_gain_factor (fpu ?empty_env) (Fin 0) (rms (fpu ?empty_env) [[], []])
      (rms (fpu ?empty_env) (samples ?empty_file)) = Inr NaN"
    unfolding example_fpu get_noise_gain_factor_def pow10_range_zero
    by (simp add: rms_empty example_file_def fdiv_NaN_right)
  have c0: "apply_mix ?empty_env (example_mix ''0'') ?empty_file = Some (Inr (), example_file [[], []])"
    using apply_mix_degenerate_noise[OF k1 k2 k3 h4 k5 k6 k7 k8 k9]
    by (simp add: example_file_def numeral_2_eq_2)
  show ?thesis
    by (intro conjI) (rule h1 h2 h3 h4 h5 h6 h7 h8 h9 g c k2 k3 k7 k8 g0 c0)+
qed

text \<open>
  Claim C4, as stated, fails on a large target SNR: with a silent noise and 8000 dB,
  line 82 raises OverflowError before any division and the host is left as it was.
\<close>

theorem apply_mix_overflow_on_silent_noise:
  "read_noise (example_env (OneDim [Fin 0])) ''/tmp/noise.wav''
        (example_file [[Fin 1], [Fin 1]]) = Inr [[Fin 0], [Fin 0]]
   \<and> adjust_noise_duration [[Fin 0], [Fin 0]] (example_file [[Fin 1], [Fin 1]])
        = Some [[Fin 0], [Fin 0]]
   \<and> rms (fpu (example_env (OneDim [Fin 0]))) [[Fin 0], [Fin 0]] = Fin 0
   \<and> py_float (example_env (OneDim [Fin 0])) ''8000'' = Some (Fin 8000)
   \<and> apply_mix (example_env (OneDim [Fin 0])) (example_mix ''8000'')
        (example_file [[Fin 1], [Fin 1]])
        = Some (Inl OverflowError, example_file [[Fin 1], [Fin 1]])"
proof (intro conjI)
  let ?e = "example_env (OneDim [Fin 0])"
  show "read_noise ?e ''/tmp/noise.wav'' (example_file [[Fin 1], [Fin 1]]) = Inr [[Fin 0], [Fin 0]]"
    by (rule example_read_mono)
  show "adjust_noise_duration [[Fin 0], [Fin 0]] (example_file [[Fin 1], [Fin 1]])
        = Some [[Fin 0], [Fin 0]]"
    by (rule adjust_one_sample)
  show "rms (fpu ?e) [[Fin 0], [Fin 0]] = Fin 0"
    by (simp add: example_fpu rms_range_silent)
  show "py_float ?e ''8000'' = Some (Fin 8000)" by (rule example_snr)
  have "get_noise_gain_factor range_unit (Fin 8000) a b = Inl OverflowError" for a b
    unfolding get_noise_gain_factor_def pow10_range_8000 by simp
  then show "apply_mix ?e (example_mix ''8000'') (example_file [[Fin 1], [Fin 1]])
        = Some (Inl OverflowError, example_file [[Fin 1], [Fin 1]])"
    by (simp add: apply_mix_def example_path example_read_mono adjust_one_sample example_snr
        example_fpu)
qed

text \<open>
  Claim C5, as the code has it. A call of \<open>apply\<close> ends in one of eight ways. It
  raises in the path resolution, in the decoding, on the missing SNR, in the parsing of
  the SNR, in the gain (the overflow of line 82) or in the sum of line 99, and the host
  object is exactly as before; or the duration loop never exits, the call never returns
  and the host is never written; or every step succeeds and the samples of the host are
  replaced by the normalised mix, the only write.
\<close>

theorem apply_mix_atomic:
  "(\<exists>err. get_actual_noise_path e self = Inl err \<and> apply_mix e self f = Some (Inl err, f))
   \<or> (\<exists>noise_path err.
         get_actual_noise_path e self = Inr noise_path
       \<and> read_noise e noise_path f = Inl err
       \<and> apply_mix e self f = Some (Inl err, f))
   \<or> (\<exists>noise_path decoded_noise.
         get_actual_noise_path e self = Inr noise_path
       \<and> read_noise e noise_path f = Inr decoded_noise
       \<and> adjust_noise_duration decoded_noise f = None
       \<and> apply_mix e self f = None)
   \<or> (\<exists>noise_path decoded_noise noise_samples.
         get_actual_noise_path e self = Inr noise_path
       \<and> read_noise e noise_path f = Inr decoded_noise
       \<and> adjust_noise_duration decoded_noise f = Some noise_samples
       \<and> parameters_values self ''snr'' = None
       \<and> apply_mix e self f = Some (Inl KeyError, f))
   \<or> (\<exists>noise_path decoded_noise noise_samples snr_string.
         get_actual_noise_path e self = Inr noise_path
       \<and> read_noise e noise_path f = Inr decoded_noise
       \<and> adjust_noise_duration decoded_noise f = Some noise_samples
       \<and> parameters_values self ''snr'' = Some snr_string
       \<and> py_float e snr_string = None
       \<and> apply_mix e self f = Some (Inl ValueError, f))
   \<or> (\<exists>noise_path decoded_noise noise_samples snr_string snr_dbs err.
         get_actual_noise_path e self = Inr noise_path
       \<and> read_noise e noise_path f = Inr decoded_noise
       \<and> adjust_noise_duration decoded_noise f = Some noise_samples
       \<and> parameters_values self ''snr'' = Some snr_string
       \<and> py_float e snr_string = Some snr_dbs
       \<and> get_noise_gain_factor (fpu e) snr_dbs (rms (fpu e) noise_samples)
            (rms (fpu e) (samples f)) = Inl err
       \<and> apply_mix e self f = Some (Inl err, f))
   \<or> (\<exists>noise_path decoded_noise noise_samples snr_string snr_dbs g err.
         get_actual_noise_path e self = Inr noise_path
       \<and> read_noise e noise_path f = Inr decoded_noise
       \<and> adjust_noise_duration decoded_noise f = Some noise_samples
       \<and> parameters_values self ''snr'' = Some snr_string
       \<and> py_float e snr_string = Some snr_dbs
       \<and> get_noise_gain_factor (fpu e) snr_dbs (rms (fpu e) noise_samples)
            (rms (fpu e) (samples f)) = Inr g
       \<and> mix_signals (fpu e) (samples f) noise_samples g = Inl err
       \<and> apply_mix e self f = Some (Inl err, f))
   \<or> (\<exists>noise_path decoded_noise noise_samples snr_string snr_dbs g y.
         get_actual_noise_path e self = Inr noise_path
       \<and> read_noise e noise_path f = Inr decoded_noise
       \<and> adjust_noise_duration decoded_noise f = Some noise_samples
       \<and> parameters_values self ''snr'' = Some snr_string
       \<and> py_float e snr_string = Some snr_dbs
       \<and> get_noise_gain_factor (fpu e) snr_dbs (rms (fpu e) noise_samples)
            (rms (fpu e) (samples f)) = Inr g
       \<and> mix_signals (fpu e) (samples f) noise_samples g = Inr y
       \<and> apply_mix e self f
           = Some (Inr (), f\<lparr>samples := normalize_rms (fpu e) y (rms (fpu e) (samples f))
                                             (rms (fpu e) y)\<rparr>))"
proof (cases "get_actual_noise_path e self")
  case (Inl err)
  then show ?thesis by (simp add: apply_mix_def)
next
  case path: (Inr noise_path)
  show ?thesis
  proof (cases "read_noise e noise_path f")
    case (Inl err)
    with path show ?thesis by (simp add: apply_mix_def)
  next
    case read: (Inr decoded_noise)
    show ?thesis
    proof (cases "adjust_noise_duration decoded_noise f")
      case None
      with path read show ?thesis by (simp add: apply_mix_def)
    next
      case adj: (Some noise_samples)
      show ?thesis
      proof (cases "parameters_values self ''snr''")
        case None
        with path read adj show ?thesis by (simp add: apply_mix_def)
      next
        case snr: (Some snr_string)
        show ?thesis
        proof (cases "py_float e snr_string")
          case None
          with path read adj snr show ?thesis by (simp add: apply_mix_def)
        next
          case parsed: (Some snr_dbs)
          show ?thesis
          proof (cases "get_noise_gain_factor (fpu e) snr_dbs (rms (fpu e) noise_samples)
                          (rms (fpu e) (samples f))")
            case (Inl err)
            with path read adj snr parsed show ?thesis by (simp add: apply_mix_def)
          next
            case gain: (Inr g)
            show ?thesis
            proof (cases "mix_signals (fpu e) (samples f) noise_samples g")
              case (Inl err)
              with path read adj snr parsed gain show ?thesis by (simp add: apply_mix_def)
            next
              case (Inr y)
              with path read adj snr parsed gain show ?thesis by (simp add: apply_mix_def)
            qed
          qed
        qed
      qed
    qed
  qed
qed

text \<open>
  Claim C5, as stated, leaves the loop out: a noise file that decodes to no sample, on a
  host with one sample per channel, is a call that neither succeeds nor raises.
\<close>

theorem apply_mix_never_returns_on_empty_noise:
  "apply_mix (example_env (OneDim [])) (example_mix ''0'') (example_file [[Fin 1], [Fin 1]]) = None"
proof -
  have "adjust_noise_duration [[], []] (example_file [[Fin 1], [Fin 1]]) = None"
    by (simp add: adjust_noise_duration_def example_file_def nsamples_def
        repeat_noise_empty_diverges)
  then show ?thesis
    by (simp add: apply_mix_def example_path example_read_mono)
qed

end
